theory Spec2Isabelle
  imports Main "HOL-Library.Word" "HOL-Library.Signed_Division"
begin

section \<open>Machine types of the Go program\<close>

text \<open>
  The program is taken on a 64-bit platform: Go's \<open>int\<close> and \<open>int64\<close> are both 64-bit
  two's complement integers, so arithmetic wraps around and \<open>sint\<close> reads the value.
  \<open>time.Duration\<close> is an \<open>int64\<close> count of nanoseconds. A Go \<open>error\<close> is represented
  by its message (\<open>err.Error()\<close>); \<open>Inl\<close> is the error branch of a call.
\<close>

type_synonym int64 = "64 word"
type_synonym go_int = "64 word"
type_synonym Duration = "64 word"
type_synonym error = string

definition Nanosecond :: Duration where
  "Nanosecond = 1"

definition Microsecond :: Duration where
  "Microsecond = 1000 * Nanosecond"

definition Millisecond :: Duration where
  "Millisecond = 1000 * Microsecond"

definition Second :: Duration where
  "Second = 1000 * Millisecond"

definition Minute :: Duration where
  "Minute = 60 * Second"

text \<open>\<open>len(s)\<close> of a Go string: its number of bytes, as an \<open>int\<close>.\<close>

definition go_len :: "string \<Rightarrow> go_int" where
  "go_len s = of_nat (length s)"

text \<open>Go's \<open>/\<close> on \<open>int\<close>: the quotient truncated towards zero, wrapped to 64 bits.\<close>

definition go_div :: "go_int \<Rightarrow> go_int \<Rightarrow> go_int" where
  "go_div a b = word_of_int (sint a sdiv sint b)"

subsection \<open>Decimal rendering\<close>

text \<open>
  \<open>strconv.Itoa\<close> and \<open>expvar.Int.String\<close> (both \<open>strconv.FormatInt(v, 10)\<close>): the
  decimal digits of the magnitude, most significant first, with a leading minus sign for a
  negative value.
\<close>

fun digits :: "nat \<Rightarrow> string" where
  "digits n = (if n < 10 then [''0123456789'' ! n]
               else digits (n div 10) @ [''0123456789'' ! (n mod 10)])"

declare digits.simps [simp del]

definition Itoa :: "go_int \<Rightarrow> string" where
  "Itoa i = (if sint i < 0 then CHR ''-'' # digits (nat (- sint i)) else digits (nat (sint i)))"

section \<open>Data model\<close>

text \<open>The fields of \<open>slack.User\<close> that the program reads.\<close>

record User =
  ID :: string
  IsBot :: bool
  Deleted :: bool
  Presence :: string

text \<open>The team description returned by \<open>api.GetTeamInfo\<close>.\<close>

record TeamInfo =
  info_name :: string
  info_domain :: string
  info_iconURL :: string

text \<open>The cached team metadata \<open>ourTeam\<close>.\<close>

record team =
  name :: string
  domain :: string
  iconURL :: string

text \<open>
  Modelled from the spec: the type \<open>team\<close> and its method \<open>Update\<close> are declared in a
  file of the repository that is not among the sources. The specification says that a
  successful metadata refresh replaces the record \<open>{name, domain, iconURL}\<close> wholesale.
\<close>

definition Update :: "TeamInfo \<Rightarrow> team \<Rightarrow> team" where
  "Update st t = t\<lparr>name := info_name st, domain := info_domain st, iconURL := info_iconURL st\<rparr>"

text \<open>The configuration struct.\<close>

record Specification =
  Port :: string
  CaptchaSitekey :: string
  CaptchaSecret :: string
  SlackToken :: string
  EnforceHTTPS :: bool

text \<open>
  The package-level variables: the thirteen \<open>expvar.Int\<close> metrics, the rate counter and the
  team metadata. The rate counter comes from an external library; its state is the type
  parameter \<open>'rc\<close> and its two operations are passed to the handler that uses them.
\<close>

record 'rc state =
  hitsPerMinute :: int64
  requests :: int64
  inviteErrors :: int64
  missingFirstName :: int64
  missingLastName :: int64
  missingEmail :: int64
  missingCoC :: int64
  successfulCaptcha :: int64
  failedCaptcha :: int64
  invalidCaptcha :: int64
  successfulInvites :: int64
  userCount :: int64
  activeUserCount :: int64
  counter :: 'rc
  ourTeam :: team

record 'rc RateCounter =
  Incr :: "int64 \<Rightarrow> 'rc \<Rightarrow> 'rc"
  Rate :: "'rc \<Rightarrow> int64"

text \<open>
  What one call of a function does to the outside world, in order: calls of the Slack API
  and lines written to the log.
\<close>

datatype event = CallGetUsers | CallGetTeamInfo | LogPrintln string

text \<open>The outcome of each Slack call during one refresh cycle.\<close>

record slack_api =
  GetUsers :: "error + User list"
  GetTeamInfo :: "error + TeamInfo"

section \<open>The refresh cycle\<close>

text \<open>The loop of \<open>updateFromSlack\<close> over the members, with its two \<open>int64\<close> counters.\<close>

fun count_users :: "User list \<Rightarrow> int64 \<times> int64 \<Rightarrow> int64 \<times> int64" where
  "count_users [] (uCount, aCount) = (uCount, aCount)"
| "count_users (u # us) (uCount, aCount) =
     (if ID u \<noteq> ''USLACKBOT'' \<and> \<not> IsBot u \<and> \<not> Deleted u
      then count_users us (uCount + 1, if Presence u = ''active'' then aCount + 1 else aCount)
      else count_users us (uCount, aCount))"

definition updateFromSlack :: "slack_api \<Rightarrow> 'rc state \<Rightarrow> Duration \<times> event list \<times> 'rc state" where
  "updateFromSlack api s =
     (case GetUsers api of
        Inl err \<Rightarrow>
          (Minute, [CallGetUsers, LogPrintln (''error polling slack for users: '' @ err)], s)
      | Inr users \<Rightarrow>
          (case count_users users (0, 0) of (uCount, aCount) \<Rightarrow>
             let s1 = s\<lparr>userCount := uCount\<rparr>;
                 s2 = s1\<lparr>activeUserCount := aCount\<rparr>
             in (case GetTeamInfo api of
                   Inl err \<Rightarrow>
                     (Minute,
                      [CallGetUsers, CallGetTeamInfo,
                       LogPrintln (''error polling slack for team info: '' @ err)],
                      s2)
                 | Inr st \<Rightarrow>
                     (10 * Minute, [CallGetUsers, CallGetTeamInfo],
                      s2\<lparr>ourTeam := Update st (ourTeam s2)\<rparr>))))"

section \<open>HTTP handlers\<close>

text \<open>
  A request, and what a handler writes to its \<open>http.ResponseWriter\<close>: the status code,
  the \<open>Content-Type\<close> header and the body. Neither handler below reads its request.
\<close>

record Request =
  Method :: string
  Path :: string
  RemoteAddr :: string

record Response =
  status :: nat
  contentType :: string
  body :: string

definition StatusOK :: nat where
  "StatusOK = 200"

definition StatusInternalServerError :: nat where
  "StatusInternalServerError = 500"

text \<open>\<open>http.Error\<close>: a plain-text reply with the given code, the message and a newline.\<close>

definition http_Error :: "string \<Rightarrow> nat \<Rightarrow> Response" where
  "http_Error msg code =
     \<lparr>status = code, contentType = ''text/plain; charset=utf-8'', body = msg @ [CHR 0x0A]\<rparr>"

subsection \<open>The badge\<close>

definition leftText :: string where
  "leftText = ''slack''"

definition color :: string where
  "color = ''#E01563''"

definition padding :: go_int where
  "padding = 8"

definition middleSeparator :: go_int where
  "middleSeparator = 4"

definition charSpacing :: go_int where
  "charSpacing = 7"

text \<open>
  The right-hand label, from the values of the two gauges (lines 158 to 170 of
  \<open>main.go\<close>): first the text \<open>active/total\<close>, then the text for no active user, which
  replaces the first when the active count is zero. \<open>0 <s v\<close> is the signed comparison
  \<open>v > int64(0)\<close>.
\<close>

definition rightText :: "int64 \<Rightarrow> int64 \<Rightarrow> string" where
  "rightText userCountValue activeUserCountValue =
     (let rightText0 = Itoa activeUserCountValue @ ''/'' @ Itoa userCountValue;
          noActiveText = (if 0 <s userCountValue then Itoa userCountValue else ''-'')
      in if activeUserCountValue = 0 then noActiveText else rightText0)"

definition leftWidth :: go_int where
  "leftWidth = padding + (charSpacing * go_len leftText) + middleSeparator"

definition rightWidth :: "string \<Rightarrow> go_int" where
  "rightWidth rt = middleSeparator + (charSpacing * go_len rt) + padding"

definition totalWidth :: "string \<Rightarrow> go_int" where
  "totalWidth rt = leftWidth + rightWidth rt"

definition leftTextWidth :: go_int where
  "leftTextWidth = go_div leftWidth 2"

definition leftTextHeight :: go_int where
  "leftTextHeight = 14"

definition rightTextWidth :: "string \<Rightarrow> go_int" where
  "rightTextWidth rt = leftWidth + go_div (rightWidth rt) 2"

definition rightTextHeight :: go_int where
  "rightTextHeight = 14"

text \<open>The anonymous struct handed to the badge template.\<close>

record BadgeData =
  TotalWidth :: string
  LeftWidth :: string
  RightWidth :: string
  MiddleSeparator :: string
  Color :: string
  LeftTextWidth :: string
  LeftTextHeight :: string
  LeftTextHeightPlusOne :: string
  RightTextWidth :: string
  RightTextHeight :: string
  RightTextHeightPlusOne :: string
  RightText :: string
  LeftText :: string
  UserCount :: string
  ActiveCount :: string

definition badgeData :: "'rc state \<Rightarrow> BadgeData" where
  "badgeData s =
     (let rt = rightText (userCount s) (activeUserCount s)
      in \<lparr>TotalWidth = Itoa (totalWidth rt),
          LeftWidth = Itoa leftWidth,
          RightWidth = Itoa (rightWidth rt),
          MiddleSeparator = Itoa middleSeparator,
          Color = color,
          LeftTextWidth = Itoa leftTextWidth,
          LeftTextHeight = Itoa leftTextHeight,
          LeftTextHeightPlusOne = Itoa (leftTextHeight + 1),
          RightTextWidth = Itoa (rightTextWidth rt),
          RightTextHeight = Itoa rightTextHeight,
          RightTextHeightPlusOne = Itoa (rightTextHeight + 1),
          RightText = rt,
          LeftText = leftText,
          UserCount = Itoa (userCount s),
          ActiveCount = Itoa (activeUserCount s)\<rparr>)"

text \<open>
  The handler \<open>badge\<close>. The template \<open>templates/badge.tmpl\<close> is a file outside the
  sources: its execution is the parameter \<open>badgeTemplate\<close>, which gives the rendered
  buffer or an error. The result is the response, the log lines and the package state
  after the call.
\<close>

definition badge ::
  "(BadgeData \<Rightarrow> error + string) \<Rightarrow> Request \<Rightarrow> 'rc state \<Rightarrow> Response \<times> event list \<times> 'rc state" where
  "badge badgeTemplate r s =
     (case badgeTemplate (badgeData s) of
        Inl err \<Rightarrow>
          (http_Error ''error rendering template :-('' StatusInternalServerError,
           [LogPrintln (''error rendering template: '' @ err)], s)
      | Inr buf \<Rightarrow>
          (\<lparr>status = StatusOK, contentType = ''image/svg+xml; charset=utf-8'', body = buf\<rparr>,
           [], s))"

subsection \<open>The homepage\<close>

text \<open>
  The anonymous struct handed to the index template. Its fields \<open>UserCount\<close> and
  \<open>ActiveCount\<close> carry the prefix \<open>Index\<close> here, the badge struct having fields of the
  same names.
\<close>

record IndexData =
  SiteKey :: string
  IndexUserCount :: string
  IndexActiveCount :: string
  Team :: team

definition indexData :: "Specification \<Rightarrow> 'rc state \<Rightarrow> IndexData" where
  "indexData c s =
     \<lparr>SiteKey = CaptchaSitekey c,
      IndexUserCount = Itoa (userCount s),
      IndexActiveCount = Itoa (activeUserCount s),
      Team = ourTeam s\<rparr>"

text \<open>
  The handler \<open>homepage\<close>: the three statements on the hit counters, in the order of the
  source, then the execution of the index template (the parameter \<open>indexTemplate\<close>) on
  the state they leave.
\<close>

definition homepage ::
  "'rc RateCounter \<Rightarrow> (IndexData \<Rightarrow> error + string) \<Rightarrow> Specification \<Rightarrow> Request \<Rightarrow> 'rc state
     \<Rightarrow> Response \<times> event list \<times> 'rc state" where
  "homepage rc indexTemplate c r s =
     (let s1 = s\<lparr>counter := Incr rc 1 (counter s)\<rparr>;
          s2 = s1\<lparr>hitsPerMinute := Rate rc (counter s1)\<rparr>;
          s3 = s2\<lparr>requests := requests s2 + 1\<rparr>
      in case indexTemplate (indexData c s3) of
           Inl err \<Rightarrow>
             (http_Error ''error rendering template :-('' StatusInternalServerError,
              [LogPrintln (''error rendering template: '' @ err)], s3)
         | Inr buf \<Rightarrow>
             (\<lparr>status = StatusOK, contentType = ''text/html; charset=utf-8'', body = buf\<rparr>,
              [], s3))"

section \<open>The specification's reading of the member count\<close>

text \<open>
  A member counts when its id is not the reserved bot identifier, its bot flag is false
  and its deleted flag is false; it counts as active when, besides, its presence is
  \<open>active\<close>.
\<close>

definition counted_member :: "User \<Rightarrow> bool" where
  "counted_member u \<longleftrightarrow> ID u \<noteq> ''USLACKBOT'' \<and> IsBot u = False \<and> Deleted u = False"

definition active_member :: "User \<Rightarrow> bool" where
  "active_member u \<longleftrightarrow> counted_member u \<and> Presence u = ''active''"

section \<open>Concrete inputs\<close>

definition example_users :: "User list" where
  "example_users =
     [\<lparr>ID = ''U1'', IsBot = False, Deleted = False, Presence = ''active''\<rparr>,
      \<lparr>ID = ''U2'', IsBot = False, Deleted = False, Presence = ''active''\<rparr>,
      \<lparr>ID = ''U3'', IsBot = False, Deleted = False, Presence = ''away''\<rparr>,
      \<lparr>ID = ''U4'', IsBot = False, Deleted = True, Presence = ''active''\<rparr>,
      \<lparr>ID = ''USLACKBOT'', IsBot = False, Deleted = False, Presence = ''active''\<rparr>,
      \<lparr>ID = ''B1'', IsBot = True, Deleted = False, Presence = ''active''\<rparr>]"

definition example_info :: TeamInfo where
  "example_info = \<lparr>info_name = ''Gophers'', info_domain = ''gophers'', info_iconURL = ''g.png''\<rparr>"

definition example_team :: team where
  "example_team = \<lparr>name = ''Old'', domain = ''old'', iconURL = ''old.png''\<rparr>"

text \<open>A state whose rate counter is a plain number of recorded events.\<close>

definition example_state :: "nat state" where
  "example_state =
     \<lparr>hitsPerMinute = 1, requests = 10, inviteErrors = 2, missingFirstName = 3,
      missingLastName = 4, missingEmail = 5, missingCoC = 6, successfulCaptcha = 7,
      failedCaptcha = 8, invalidCaptcha = 9, successfulInvites = 11,
      userCount = 100, activeUserCount = 7, counter = 1, ourTeam = example_team\<rparr>"

definition example_rc :: "nat RateCounter" where
  "example_rc = \<lparr>Incr = (\<lambda>n c. c + unat n), Rate = (\<lambda>c. of_nat c)\<rparr>"

text \<open>Three refresh cycles: the listing fails, the team info fails, both succeed.\<close>

definition api_listing_fails :: slack_api where
  "api_listing_fails = \<lparr>GetUsers = Inl ''timeout'', GetTeamInfo = Inr example_info\<rparr>"

definition api_info_fails :: slack_api where
  "api_info_fails = \<lparr>GetUsers = Inr example_users, GetTeamInfo = Inl ''timeout''\<rparr>"

definition api_ok :: slack_api where
  "api_ok = \<lparr>GetUsers = Inr example_users, GetTeamInfo = Inr example_info\<rparr>"

definition example_config :: Specification where
  "example_config =
     \<lparr>Port = ''8080'', CaptchaSitekey = ''site'', CaptchaSecret = ''secret'',
      SlackToken = ''token'', EnforceHTTPS = False\<rparr>"

definition example_request :: Request where
  "example_request = \<lparr>Method = ''GET'', Path = ''/'', RemoteAddr = ''10.0.0.1:4000''\<rparr>"

section \<open>Auxiliary facts\<close>

lemma count_users_eq:
  "count_users us (u0, a0) =
     (u0 + of_nat (length (filter counted_member us)),
      a0 + of_nat (length (filter active_member us)))"
  by (induction us arbitrary: u0 a0) (simp_all add: counted_member_def active_member_def)

lemma sint_of_nat_small:
  assumes "n < 2 ^ 63"
  shows "sint (of_nat n :: 64 word) = int n"
proof -
  have "signed_take_bit 63 (int n) = int n"
    using assms by (intro signed_take_bit_int_eq_self) simp_all
  then show ?thesis
    by (simp add: signed_of_nat)
qed

lemma digits_length:
  "0 < k \<Longrightarrow> n < 10 ^ k \<Longrightarrow> length (digits n) \<le> k"
proof (induction k arbitrary: n)
  case 0
  then show ?case by simp
next
  case (Suc k)
  show ?case
  proof (cases "n < 10")
    case True
    then show ?thesis by (simp add: digits.simps [of n])
  next
    case False
    with Suc.prems have k: "0 < k" by (cases k) auto
    from Suc.prems have "n div 10 < 10 ^ k"
      by (simp add: less_mult_imp_div_less mult.commute)
    with k have "length (digits (n div 10)) \<le> k" by (rule Suc.IH)
    with False show ?thesis by (simp add: digits.simps [of n])
  qed
qed

text \<open>A 64-bit value has at most 19 decimal digits, and a sign.\<close>

lemma Itoa_length: "length (Itoa i) \<le> 20"
proof -
  have lt: "sint i < 2 ^ 63" using sint_lt [of i] by simp
  have ge: "- (2 ^ 63) \<le> sint i" using sint_ge [of i] by simp
  have "nat (- sint i) < 10 ^ 19" using ge by simp
  then have neg: "length (digits (nat (- sint i))) \<le> 19" by (intro digits_length) simp_all
  have "nat (sint i) < 10 ^ 19" using lt by simp
  then have pos: "length (digits (nat (sint i))) \<le> 19" by (intro digits_length) simp_all
  from neg pos show ?thesis by (simp add: Itoa_def)
qed

text \<open>Every label that \<open>badge\<close> can build has at most 41 bytes.\<close>

lemma rightText_length: "length (rightText u a) \<le> 41"
  using Itoa_length [of u] Itoa_length [of a]
  by (simp add: rightText_def Let_def)

lemma sint_leftWidth: "sint leftWidth = 47"
  by (simp add: leftWidth_def padding_def charSpacing_def middleSeparator_def go_len_def
      leftText_def)

lemma rightWidth_of_nat: "rightWidth rt = of_nat (4 + 7 * length rt + 8)"
  by (simp add: rightWidth_def padding_def charSpacing_def middleSeparator_def go_len_def)

lemma totalWidth_of_nat: "totalWidth rt = of_nat (47 + (4 + 7 * length rt + 8))"
  by (simp add: totalWidth_def rightWidth_of_nat leftWidth_def padding_def charSpacing_def
      middleSeparator_def go_len_def leftText_def)

text \<open>The widths do not wrap around for any label shorter than \<open>2 ^ 60\<close> bytes.\<close>

lemma sint_rightWidth:
  assumes "length rt < 2 ^ 60"
  shows "sint (rightWidth rt) = 4 + 7 * int (length rt) + 8"
proof -
  have "4 + 7 * length rt + 8 < 2 ^ 63" using assms by simp
  then show ?thesis unfolding rightWidth_of_nat by (subst sint_of_nat_small) simp_all
qed

lemma sint_totalWidth:
  assumes "length rt < 2 ^ 60"
  shows "sint (totalWidth rt) = 47 + (4 + 7 * int (length rt) + 8)"
proof -
  have "47 + (4 + 7 * length rt + 8) < 2 ^ 63" using assms by simp
  then show ?thesis unfolding totalWidth_of_nat by (subst sint_of_nat_small) simp_all
qed

section \<open>The refresh cycle: counts\<close>

text \<open>
  C1. After a successful listing call, the refresh step sets the gauge \<open>userCount\<close> to
  the number of members whose id is not \<open>USLACKBOT\<close>, whose bot flag is false and whose
  deleted flag is false, and the gauge \<open>activeUserCount\<close> to the number of those whose
  presence is \<open>active\<close>, whatever the team-info call does afterwards. The length of a Go
  slice is an \<open>int\<close>, hence below \<open>2 ^ 63\<close>.
\<close>

theorem refresh_counts:
  assumes "GetUsers api = Inr users" and "length users < 2 ^ 63"
  shows "sint (userCount (snd (snd (updateFromSlack api s)))) =
           int (length (filter counted_member users)) \<and>
         sint (activeUserCount (snd (snd (updateFromSlack api s)))) =
           int (length (filter active_member users))"
proof -
  have u: "length (filter counted_member users) < 2 ^ 63"
    using assms(2) length_filter_le [of counted_member users] by linarith
  have a: "length (filter active_member users) < 2 ^ 63"
    using assms(2) length_filter_le [of active_member users] by linarith
  show ?thesis
    using assms(1) sint_of_nat_small [OF u] sint_of_nat_small [OF a]
    by (simp add: updateFromSlack_def count_users_eq Let_def split: sum.splits)
qed

theorem refresh_counts_witness:
  "GetUsers api_info_fails = Inr example_users \<and>
   length example_users < 2 ^ 63 \<and>
   sint (userCount (snd (snd (updateFromSlack api_info_fails example_state)))) = 3 \<and>
   sint (activeUserCount (snd (snd (updateFromSlack api_info_fails example_state)))) = 2"
  using refresh_counts [of api_info_fails example_users example_state]
  by (simp add: api_info_fails_def example_users_def counted_member_def active_member_def)

section \<open>The refresh cycle: a failed listing call\<close>

text \<open>
  C2. When the listing call fails, one refresh cycle leaves the whole package state as it
  was (both gauges and the team metadata among it), makes no team-info call, and returns
  one minute, that is 60000000000 nanoseconds.
\<close>

theorem listing_failure:
  assumes "GetUsers api = Inl err"
  shows "fst (updateFromSlack api s) = Minute \<and>
         sint Minute = 60000000000 \<and>
         snd (snd (updateFromSlack api s)) = s \<and>
         CallGetTeamInfo \<notin> set (fst (snd (updateFromSlack api s)))"
  using assms
  by (simp add: updateFromSlack_def Minute_def Second_def Millisecond_def Microsecond_def
      Nanosecond_def)

theorem listing_failure_witness:
  "GetUsers api_listing_fails = Inl ''timeout'' \<and>
   updateFromSlack api_listing_fails example_state =
     (Minute, [CallGetUsers, LogPrintln ''error polling slack for users: timeout''],
      example_state)"
  using listing_failure [of api_listing_fails "''timeout''" example_state]
  by (simp add: updateFromSlack_def api_listing_fails_def)

section \<open>The badge label\<close>

text \<open>
  C3. For every pair of gauge values the right-hand label of the badge is, when the active
  count is zero, the decimal rendering of the user count if that is positive and the
  placeholder \<open>-\<close> otherwise, and, when the active count is not zero, the active count,
  a slash and the user count. In particular 42 and 0 give \<open>42\<close>, 0 and 0 give \<open>-\<close>,
  100 and 7 give \<open>7/100\<close>.
\<close>

theorem rightText_label:
  "rightText userCountValue activeUserCountValue =
     (if activeUserCountValue = 0
      then (if 0 < sint userCountValue then Itoa userCountValue else ''-'')
      else Itoa activeUserCountValue @ ''/'' @ Itoa userCountValue) \<and>
   rightText 42 0 = ''42'' \<and> rightText 0 0 = ''-'' \<and> rightText 100 7 = ''7/100''"
  by (simp add: rightText_def Let_def word_sless_alt Itoa_def digits.simps)

section \<open>The refresh cycle: both calls succeed\<close>

text \<open>
  C4. When the listing call and the team-info call both succeed, the team metadata is
  replaced wholesale by the fetched team info (no field of the old record remains) and
  the cycle returns ten minutes, that is 600000000000 nanoseconds.
\<close>

theorem refresh_success:
  assumes "GetUsers api = Inr users" and "GetTeamInfo api = Inr st"
  shows "fst (updateFromSlack api s) = 10 * Minute \<and>
         sint (10 * Minute) = 600000000000 \<and>
         ourTeam (snd (snd (updateFromSlack api s))) =
           \<lparr>name = info_name st, domain = info_domain st, iconURL = info_iconURL st\<rparr>"
  using assms
  by (simp add: updateFromSlack_def Update_def Let_def Minute_def Second_def Millisecond_def
      Microsecond_def Nanosecond_def split: prod.splits)

theorem refresh_success_witness:
  "GetUsers api_ok = Inr example_users \<and> GetTeamInfo api_ok = Inr example_info \<and>
   fst (updateFromSlack api_ok example_state) = 10 * Minute \<and>
   ourTeam (snd (snd (updateFromSlack api_ok example_state))) =
     \<lparr>name = ''Gophers'', domain = ''gophers'', iconURL = ''g.png''\<rparr> \<and>
   ourTeam example_state \<noteq> \<lparr>name = ''Gophers'', domain = ''gophers'', iconURL = ''g.png''\<rparr>"
  using refresh_success [of api_ok example_users example_info example_state]
  by (simp add: api_ok_def example_info_def example_state_def example_team_def)

section \<open>The refresh cycle: active members among the counted ones\<close>

text \<open>
  C5. For every member list processed by one successful listing, the active count that the
  cycle stores is at most the user count that it stores, in the signed order of
  \<open>int64\<close>.
\<close>

theorem active_le_total:
  assumes "GetUsers api = Inr users" and "length users < 2 ^ 63"
  shows "activeUserCount (snd (snd (updateFromSlack api s))) \<le>s
         userCount (snd (snd (updateFromSlack api s)))"
proof -
  have le: "length (filter active_member users) \<le> length (filter counted_member users)"
  proof -
    have eq: "filter active_member users =
        filter (\<lambda>u. Presence u = ''active'') (filter counted_member users)"
      by (simp add: active_member_def [abs_def])
    show ?thesis unfolding eq by (rule length_filter_le)
  qed
  have u: "length (filter counted_member users) < 2 ^ 63"
    using assms(2) length_filter_le [of counted_member users] by linarith
  with le have a: "length (filter active_member users) < 2 ^ 63" by linarith
  show ?thesis
    using assms(1) le sint_of_nat_small [OF u] sint_of_nat_small [OF a]
    by (simp add: updateFromSlack_def count_users_eq Let_def word_sle_eq split: sum.splits)
qed

theorem active_le_total_witness:
  "GetUsers api_ok = Inr example_users \<and> length example_users < 2 ^ 63 \<and>
   activeUserCount (snd (snd (updateFromSlack api_ok example_state))) \<le>s
   userCount (snd (snd (updateFromSlack api_ok example_state))) \<and>
   activeUserCount (snd (snd (updateFromSlack api_ok example_state))) = 2 \<and>
   userCount (snd (snd (updateFromSlack api_ok example_state))) = 3"
  using active_le_total [of api_ok example_users example_state]
  by (simp add: api_ok_def example_users_def updateFromSlack_def)

section \<open>The refresh cycle: a failed team-info call\<close>

text \<open>
  C6. When the listing call succeeds and the team-info call fails, the two gauges hold the
  newly computed counts, nothing else of the state changes (the team metadata keeps its
  value), and the cycle returns one minute.
\<close>

theorem info_failure:
  assumes "GetUsers api = Inr users" and "GetTeamInfo api = Inl err"
  shows "fst (updateFromSlack api s) = Minute \<and>
         sint Minute = 60000000000 \<and>
         snd (snd (updateFromSlack api s)) =
           s\<lparr>userCount := fst (count_users users (0, 0)),
             activeUserCount := snd (count_users users (0, 0))\<rparr> \<and>
         userCount (snd (snd (updateFromSlack api s))) =
           of_nat (length (filter counted_member users)) \<and>
         activeUserCount (snd (snd (updateFromSlack api s))) =
           of_nat (length (filter active_member users)) \<and>
         ourTeam (snd (snd (updateFromSlack api s))) = ourTeam s"
  using assms
  by (simp add: updateFromSlack_def count_users_eq Let_def Minute_def Second_def
      Millisecond_def Microsecond_def Nanosecond_def)

theorem info_failure_witness:
  "GetUsers api_info_fails = Inr example_users \<and>
   GetTeamInfo api_info_fails = Inl ''timeout'' \<and>
   updateFromSlack api_info_fails example_state =
     (Minute,
      [CallGetUsers, CallGetTeamInfo,
       LogPrintln ''error polling slack for team info: timeout''],
      example_state\<lparr>userCount := 3, activeUserCount := 2\<rparr>)"
  using info_failure [of api_info_fails example_users "''timeout''" example_state]
  by (simp add: api_info_fails_def example_users_def updateFromSlack_def)

section \<open>The badge layout\<close>

lemma rightText_small: "length (rightText u a) < 2 ^ 60"
  using rightText_length [of u a] by simp

lemma totalWidth_mono_bounded:
  assumes "length s \<le> length t" and "length t < 2 ^ 60"
  shows "totalWidth s \<le>s totalWidth t"
proof -
  from assms have "length s < 2 ^ 60" by linarith
  then show ?thesis
    using assms by (simp add: word_sle_eq sint_totalWidth)
qed

text \<open>
  C7. For every right-hand label that the badge shows, the widths are, as integers and
  without wrap-around: the left width is the padding plus the character pitch times the
  length of the left text plus the separator width; the right width is the separator
  width plus the character pitch times the length of the label plus the padding; the
  total width is their sum. The padding is 8, the separator width 4, the character pitch
  7 and the left text \<open>slack\<close>.
\<close>

theorem badge_widths:
  "sint leftWidth =
     sint padding + sint charSpacing * int (length leftText) + sint middleSeparator \<and>
   sint (rightWidth (rightText u a)) =
     sint middleSeparator + sint charSpacing * int (length (rightText u a)) + sint padding \<and>
   sint (totalWidth (rightText u a)) = sint leftWidth + sint (rightWidth (rightText u a)) \<and>
   sint padding = 8 \<and> sint middleSeparator = 4 \<and> sint charSpacing = 7 \<and>
   leftText = ''slack''"
  using sint_rightWidth [OF rightText_small [of u a]]
    sint_totalWidth [OF rightText_small [of u a]]
  by (simp add: sint_leftWidth padding_def middleSeparator_def charSpacing_def leftText_def)

text \<open>
  C8. The total width of the badge does not decrease with the length of the right-hand
  label: of two labels that the badge can show, the one that is not longer gives a total
  width that is not larger.
\<close>

theorem totalWidth_mono:
  assumes "length (rightText u a) \<le> length (rightText u' a')"
  shows "totalWidth (rightText u a) \<le>s totalWidth (rightText u' a')"
  using assms rightText_small [of u' a'] by (rule totalWidth_mono_bounded)

theorem totalWidth_mono_witness:
  "length (rightText 42 0) \<le> length (rightText 100 7) \<and>
   totalWidth (rightText 42 0) \<le>s totalWidth (rightText 100 7) \<and>
   totalWidth (rightText 42 0) = 73 \<and> totalWidth (rightText 100 7) = 94"
  using totalWidth_mono [of 42 0 100 7]
  by (simp add: rightText_def Let_def word_sless_alt Itoa_def digits.simps totalWidth_of_nat)

section \<open>What the handlers change\<close>

text \<open>
  C9. The handler \<open>badge\<close> leaves the whole package state as it was, whether the
  template renders or fails. The handler \<open>homepage\<close> changes the rate counter, the gauge
  \<open>hitsPerMinute\<close> and the counter \<open>requests\<close>, and nothing else: the two user gauges,
  the team metadata and the nine other counters keep their values.
\<close>

theorem handlers_frame:
  "snd (snd (badge badgeTemplate r s)) = s \<and>
   snd (snd (homepage rc indexTemplate c r s)) =
     s\<lparr>counter := Incr rc 1 (counter s),
       hitsPerMinute := Rate rc (Incr rc 1 (counter s)),
       requests := requests s + 1\<rparr> \<and>
   userCount (snd (snd (homepage rc indexTemplate c r s))) = userCount s \<and>
   activeUserCount (snd (snd (homepage rc indexTemplate c r s))) = activeUserCount s \<and>
   ourTeam (snd (snd (homepage rc indexTemplate c r s))) = ourTeam s \<and>
   inviteErrors (snd (snd (homepage rc indexTemplate c r s))) = inviteErrors s \<and>
   missingFirstName (snd (snd (homepage rc indexTemplate c r s))) = missingFirstName s \<and>
   missingLastName (snd (snd (homepage rc indexTemplate c r s))) = missingLastName s \<and>
   missingEmail (snd (snd (homepage rc indexTemplate c r s))) = missingEmail s \<and>
   missingCoC (snd (snd (homepage rc indexTemplate c r s))) = missingCoC s \<and>
   successfulCaptcha (snd (snd (homepage rc indexTemplate c r s))) = successfulCaptcha s \<and>
   failedCaptcha (snd (snd (homepage rc indexTemplate c r s))) = failedCaptcha s \<and>
   invalidCaptcha (snd (snd (homepage rc indexTemplate c r s))) = invalidCaptcha s \<and>
   successfulInvites (snd (snd (homepage rc indexTemplate c r s))) = successfulInvites s"
  by (simp add: badge_def homepage_def Let_def split: sum.splits)

text \<open>
  C10. When the index template fails, the handler \<open>homepage\<close> answers with the status
  500 and has nevertheless recorded the hit: the rate counter has the event, the gauge
  \<open>hitsPerMinute\<close> holds the new rate and \<open>requests\<close> is one more. The state it leaves
  is the one that a successful rendering leaves: the updates precede the template and are
  not undone.
\<close>

theorem homepage_counts_on_error:
  assumes "indexTemplate (indexData c s) = Inl err"
  shows "status (fst (homepage rc indexTemplate c r s)) = 500 \<and>
         counter (snd (snd (homepage rc indexTemplate c r s))) = Incr rc 1 (counter s) \<and>
         hitsPerMinute (snd (snd (homepage rc indexTemplate c r s))) =
           Rate rc (Incr rc 1 (counter s)) \<and>
         requests (snd (snd (homepage rc indexTemplate c r s))) = requests s + 1 \<and>
         snd (snd (homepage rc indexTemplate c r s)) =
           snd (snd (homepage rc (\<lambda>d. Inr buf) c r s))"
  using assms
  by (simp add: homepage_def Let_def indexData_def http_Error_def
      StatusInternalServerError_def)

theorem homepage_counts_on_error_witness:
  "(\<lambda>d. Inl ''broken template'') (indexData example_config example_state) =
     Inl ''broken template'' \<and>
   homepage example_rc (\<lambda>d. Inl ''broken template'') example_config example_request
       example_state =
     (http_Error ''error rendering template :-('' 500,
      [LogPrintln ''error rendering template: broken template''],
      example_state\<lparr>counter := 2, hitsPerMinute := 2, requests := 11\<rparr>)"
  using homepage_counts_on_error [of "\<lambda>d. Inl ''broken template''" example_config
      example_state "''broken template''" example_rc example_request "[]"]
  by (simp add: homepage_def Let_def example_rc_def example_state_def
      StatusInternalServerError_def)

end
